theory Spec2Isabelle
  imports Main "HOL-Library.Word" "HOL-Library.Signed_Division"
begin

section \<open>Shamir share checking of \<open>secret_sharing.js\<close>\<close>

text \<open>
  The script works on JavaScript \<open>BigInt\<close> values, which are unbounded: they are
  \<^typ>\<open>int\<close> here. \<open>BigInt\<close> division truncates towards zero and the
  remainder takes the sign of the dividend: these are \<open>sdiv\<close> and \<open>smod\<close>,
  not HOL's \<open>div\<close> and \<open>mod\<close>. Both raise \<open>RangeError\<close> on a zero divisor.
  The bytes of a \<open>Uint8Array\<close> are \<^typ>\<open>8 word\<close>.
\<close>

subsection \<open>Errors and values\<close>

datatype error = RangeError | TypeError | Error string

type_synonym byte = "8 word"

type_synonym point = "int \<times> int"

record detect_result =
  secret :: "int option"
  wrongShares :: "(int \<times> string) list"

subsection \<open>\<open>sharesToPoints\<close> (lines 78-87)\<close>

text \<open>
  \<open>y = (y << 8n) + BigInt(s[i])\<close> for \<open>i\<close> from 1: a left fold over the bytes after
  the first.
\<close>

fun payload_loop :: "int \<Rightarrow> byte list \<Rightarrow> int" where
  "payload_loop y [] = y"
| "payload_loop y (b # bs) = payload_loop (push_bit 8 y + uint b) bs"

text \<open>
  On a share with no byte at all \<open>s[0]\<close> is \<open>undefined\<close>, and \<open>BigInt(undefined)\<close>
  raises \<open>TypeError\<close>.
\<close>

definition share_point :: "byte list \<Rightarrow> error + point" where
  "share_point s = (case s of [] \<Rightarrow> Inl TypeError | b # bs \<Rightarrow> Inr (uint b, payload_loop 0 bs))"

fun sharesToPoints :: "byte list list \<Rightarrow> error + point list" where
  "sharesToPoints [] = Inr []"
| "sharesToPoints (s # ss) =
     (case share_point s of
        Inl e \<Rightarrow> Inl e
      | Inr pt \<Rightarrow> (case sharesToPoints ss of Inl e \<Rightarrow> Inl e | Inr pts \<Rightarrow> Inr (pt # pts)))"

subsection \<open>\<open>modInverse\<close> (lines 90-107)\<close>

text \<open>
  The \<open>while (aa > 1n)\<close> loop, on the variables \<open>aa\<close>, \<open>p\<close>, \<open>x0\<close>, \<open>x1\<close>; it
  returns the last \<open>x1\<close>. \<open>q = aa / p\<close> raises when \<open>p\<close> is zero.
\<close>

function modInverse_loop :: "int \<Rightarrow> int \<Rightarrow> int \<Rightarrow> int \<Rightarrow> error + int" where
  "modInverse_loop aa p x0 x1 =
     (if aa > 1 then
        (if p = 0 then Inl RangeError
         else modInverse_loop p (aa smod p) (x1 - (aa sdiv p) * x0) x0)
      else Inr x1)"
  by pat_completeness auto
termination
proof (relation "measure (\<lambda>(aa, p, x0, x1). if aa \<le> 1 then 0 else if p \<le> 0 then 1 else nat p + 1)")
  show "wf (measure (\<lambda>(aa :: int, p :: int, x0 :: int, x1 :: int).
              if aa \<le> 1 then 0 else if p \<le> 0 then 1 else nat p + 1))"
    by simp
next
  fix aa p x0 x1 :: int
  assume a: "1 < aa" and p: "p \<noteq> 0"
  have "aa smod p < p" if "0 < p"
    using a that by (simp add: smod_int_compares)
  then show "((p, aa smod p, x1 - aa sdiv p * x0, x0), aa, p, x0, x1)
      \<in> measure (\<lambda>(aa, p, x0, x1). if aa \<le> 1 then 0 else if p \<le> 0 then 1 else nat p + 1)"
    using a p by auto
qed

declare modInverse_loop.simps [simp del]

definition modInverse :: "int \<Rightarrow> int \<Rightarrow> error + int" where
  "modInverse a p =
     (if p = 1 then Inr 0
      else case modInverse_loop a p 0 1 of
             Inl e \<Rightarrow> Inl e
           | Inr x1 \<Rightarrow> Inr (if x1 < 0 then x1 + p else x1))"

subsection \<open>Lagrange basis factor (lines 116-121 and 141-146)\<close>

text \<open>
  The inner \<open>for (let j = 0; j < k; j++)\<close> loop is written twice in the script, once
  with \<open>0n - xj\<close> (in \<open>lagrangeInterpolationAtZero\<close>) and once with \<open>x - xj\<close> (in
  \<open>detectWrongShares\<close>); the evaluation point \<open>x\<close> is a parameter here. The loop runs
  over the remaining indices \<open>js\<close>, skips \<open>j = i\<close>, and updates
  \<open>li = (li * (x - xj) * modInverse(xi - xj, prime)) % prime\<close>. The difference
  \<open>xi - xj\<close> goes to \<open>modInverse\<close> as it is. Both \<open>modInverse\<close> and \<open>%\<close> can raise.
\<close>

fun li_loop :: "point list \<Rightarrow> int \<Rightarrow> int \<Rightarrow> nat \<Rightarrow> int \<Rightarrow> nat list \<Rightarrow> int \<Rightarrow> error + int" where
  "li_loop pts prime x i xi [] li = Inr li"
| "li_loop pts prime x i xi (j # js) li =
     (if j \<noteq> i then
        (let xj = fst (pts ! j) in
         case modInverse (xi - xj) prime of
           Inl e \<Rightarrow> Inl e
         | Inr iv \<Rightarrow>
             if prime = 0 then Inl RangeError
             else li_loop pts prime x i xi js ((li * (x - xj) * iv) smod prime))
      else li_loop pts prime x i xi js li)"

subsection \<open>\<open>lagrangeInterpolationAtZero\<close> (lines 110-125)\<close>

text \<open>
  The outer loop over \<open>i\<close>; the accumulator \<open>sec\<close> is the script's variable \<open>secret\<close>:
  \<open>secret = (prime + secret + (yi * li)) % prime\<close>.
\<close>

fun secret_loop :: "point list \<Rightarrow> int \<Rightarrow> nat list \<Rightarrow> int \<Rightarrow> error + int" where
  "secret_loop pts prime [] sec = Inr sec"
| "secret_loop pts prime (i # is) sec =
     (let xi = fst (pts ! i); yi = snd (pts ! i) in
      case li_loop pts prime 0 i xi [0..<length pts] 1 of
        Inl e \<Rightarrow> Inl e
      | Inr li \<Rightarrow>
          if prime = 0 then Inl RangeError
          else secret_loop pts prime is ((prime + sec + (yi * li)) smod prime))"

definition lagrangeInterpolationAtZero :: "point list \<Rightarrow> int \<Rightarrow> error + int" where
  "lagrangeInterpolationAtZero points prime = secret_loop points prime [0..<length points] 0"

subsection \<open>\<open>detectWrongShares\<close> (lines 128-154)\<close>

text \<open>
  \<open>points.slice(0, threshold)\<close>: a negative end counts from the end of the array.
\<close>

definition slice0 :: "'a list \<Rightarrow> int \<Rightarrow> 'a list" where
  "slice0 xs e = (if e < 0 then take (nat (int (length xs) + e)) xs else take (nat e) xs)"

text \<open>
  The loop over \<open>i\<close> of lines 138-148, with the accumulator \<open>yEstimate\<close>:
  \<open>yEstimate = (yEstimate + yi * li) % prime\<close>. The parameter \<open>sub\<close> is the script's
  array \<open>subset\<close>.
\<close>

fun yEstimate_loop :: "point list \<Rightarrow> int \<Rightarrow> int \<Rightarrow> nat list \<Rightarrow> int \<Rightarrow> error + int" where
  "yEstimate_loop sub prime x [] yEstimate = Inr yEstimate"
| "yEstimate_loop sub prime x (i # is) yEstimate =
     (let xi = fst (sub ! i); yi = snd (sub ! i) in
      case li_loop sub prime x i xi [0..<length sub] 1 of
        Inl e \<Rightarrow> Inl e
      | Inr li \<Rightarrow>
          if prime = 0 then Inl RangeError
          else yEstimate_loop sub prime x is ((yEstimate + yi * li) smod prime))"

text \<open>Lines 137-148: the estimate at \<open>x\<close>, from \<open>let yEstimate = 0n\<close> on.\<close>

definition yEstimate_at :: "point list \<Rightarrow> int \<Rightarrow> int \<Rightarrow> error + int" where
  "yEstimate_at sub prime x = yEstimate_loop sub prime x [0..<length sub] 0"

text \<open>\<open>y.toString()\<close> of a \<open>BigInt\<close>: its decimal digits, after a minus sign if negative.\<close>

definition dec_digit :: "nat \<Rightarrow> char" where
  "dec_digit d = ''0123456789'' ! d"

fun dec_digits :: "nat \<Rightarrow> string" where
  "dec_digits n = (if n < 10 then [dec_digit n] else dec_digits (n div 10) @ [dec_digit (n mod 10)])"

declare dec_digits.simps [simp del]

definition toString :: "int \<Rightarrow> string" where
  "toString y = (if y < 0 then CHR ''-'' # dec_digits (nat (- y)) else dec_digits (nat y))"

text \<open>
  The loop \<open>for (const [x, y] of points)\<close> of lines 136-152, with the array
  \<open>wrongShares\<close> as accumulator; \<open>push\<close> appends at the end.
\<close>

fun wrong_loop :: "point list \<Rightarrow> int \<Rightarrow> point list \<Rightarrow> (int \<times> string) list \<Rightarrow> error + (int \<times> string) list" where
  "wrong_loop sub prime [] ws = Inr ws"
| "wrong_loop sub prime ((x, y) # rest) ws =
     (case yEstimate_at sub prime x of
        Inl e \<Rightarrow> Inl e
      | Inr yEstimate \<Rightarrow>
          wrong_loop sub prime rest (if yEstimate \<noteq> y then ws @ [(x, toString y)] else ws))"

definition detectWrongShares :: "byte list list \<Rightarrow> int \<Rightarrow> int \<Rightarrow> error + detect_result" where
  "detectWrongShares shares threshold prime =
     (if int (length shares) < threshold then Inr \<lparr>secret = None, wrongShares = []\<rparr>
      else case sharesToPoints shares of
        Inl e \<Rightarrow> Inl e
      | Inr points \<Rightarrow>
          (let sub = slice0 points threshold in
           case lagrangeInterpolationAtZero sub prime of
             Inl e \<Rightarrow> Inl e
           | Inr s \<Rightarrow>
               (case wrong_loop sub prime points [] of
                  Inl e \<Rightarrow> Inl e
                | Inr ws \<Rightarrow> Inr \<lparr>secret = Some s, wrongShares = ws\<rparr>)))"

text \<open>Line 157: the modulus the script passes.\<close>

definition PRIME :: int where
  "PRIME = 2 ^ 521 - 1"

subsection \<open>Digits of the script and of the JavaScript built-ins\<close>

text \<open>
  Strings hold ASCII characters. Line 6: the digit alphabet; \<open>toString\<close> and
  \<open>parseInt\<close> use the same one.
\<close>

definition digits :: string where
  "digits = ''0123456789abcdefghijklmnopqrstuvwxyz''"

text \<open>\<open>digits.indexOf(ch)\<close>: the first position of the character, or \<open>-1\<close>.\<close>

fun indexOf_from :: "string \<Rightarrow> char \<Rightarrow> int \<Rightarrow> int" where
  "indexOf_from [] ch i = - 1"
| "indexOf_from (d # ds) ch i = (if d = ch then i else indexOf_from ds ch (i + 1))"

definition indexOf :: "string \<Rightarrow> char \<Rightarrow> int" where
  "indexOf str ch = indexOf_from str ch 0"

definition toLowerCase_char :: "char \<Rightarrow> char" where
  "toLowerCase_char c =
     (if 65 \<le> (of_char c :: nat) \<and> (of_char c :: nat) \<le> 90 then char_of ((of_char c :: nat) + 32) else c)"

definition toLowerCase :: "string \<Rightarrow> string" where
  "toLowerCase str = map toLowerCase_char str"

text \<open>\<open>result.toString(16)\<close> of a \<open>BigInt\<close>.\<close>

fun hex_digits :: "nat \<Rightarrow> string" where
  "hex_digits n = (if n < 16 then [digits ! n] else hex_digits (n div 16) @ [digits ! (n mod 16)])"

declare hex_digits.simps [simp del]

definition toString16 :: "int \<Rightarrow> string" where
  "toString16 y = (if y < 0 then CHR ''-'' # hex_digits (nat (- y)) else hex_digits (nat y))"

text \<open>
  \<open>parseInt(string, radix)\<close>, with \<open>None\<close> for a radix left out and \<open>Some r\<close> for a
  radix \<open>r\<close> from 2 to 36: white space is skipped, a sign is read, a prefix \<open>0x\<close> is
  skipped when the radix is left out or 16, and the longest run of digits of the
  radix is the value; \<open>None\<close> is \<open>NaN\<close>. The value is exact below \<open>2 ^ 53\<close>, where the
  script's double is.
\<close>

definition is_space :: "char \<Rightarrow> bool" where
  "is_space c = ((of_char c :: nat) \<in> {9, 10, 11, 12, 13, 32})"

fun digit_run :: "int \<Rightarrow> string \<Rightarrow> int option \<Rightarrow> int option" where
  "digit_run r [] acc = acc"
| "digit_run r (c # cs) acc =
     (let d = indexOf digits (toLowerCase_char c) in
      if d = - 1 \<or> r \<le> d then acc
      else digit_run r cs (Some (r * (case acc of None \<Rightarrow> 0 | Some a \<Rightarrow> a) + d)))"

definition has_0x :: "string \<Rightarrow> bool" where
  "has_0x s = (case s of a # b # _ \<Rightarrow> a = CHR ''0'' \<and> (b = CHR ''x'' \<or> b = CHR ''X'') | _ \<Rightarrow> False)"

definition parseInt :: "string \<Rightarrow> nat option \<Rightarrow> int option" where
  "parseInt str radix =
     (let t = dropWhile is_space str;
          neg = (t \<noteq> [] \<and> hd t = CHR ''-'');
          u = (if t \<noteq> [] \<and> (hd t = CHR ''-'' \<or> hd t = CHR ''+'') then tl t else t);
          strip = ((radix = None \<or> radix = Some 16) \<and> has_0x u);
          r = (if strip then 16 else case radix of None \<Rightarrow> 10 | Some r \<Rightarrow> int r);
          w = (if strip then drop 2 u else u)
      in map_option (\<lambda>n. if neg then - n else n) (digit_run r w None))"

text \<open>Storing a number into a \<open>Uint8Array\<close>: \<open>NaN\<close> becomes 0, an integer wraps modulo 256.\<close>

definition to_uint8 :: "int option \<Rightarrow> byte" where
  "to_uint8 v = (case v of None \<Rightarrow> 0 | Some n \<Rightarrow> word_of_int n)"

subsection \<open>\<open>baseStringToHex\<close> (lines 5-19)\<close>

text \<open>The loop of lines 11-15; the parameter \<open>base\<close> is \<open>BigInt(base)\<close>.\<close>

fun base_loop :: "int \<Rightarrow> string \<Rightarrow> int \<Rightarrow> error + int" where
  "base_loop base [] result = Inr result"
| "base_loop base (ch # rest) result =
     (let v = indexOf digits ch in
      if v = - 1 then Inl (Error ''Invalid character for base conversion'')
      else base_loop base rest (result * base + v))"

definition baseStringToHex :: "string \<Rightarrow> int \<Rightarrow> error + string" where
  "baseStringToHex str base =
     (case base_loop base (toLowerCase str) 0 of
        Inl e \<Rightarrow> Inl e
      | Inr result \<Rightarrow>
          (let hex = toString16 result in
           Inr (if length hex mod 2 \<noteq> 0 then CHR ''0'' # hex else hex)))"

subsection \<open>\<open>hexStringToUint8Array\<close> (lines 22-29) and \<open>padDataBytes\<close> (lines 32-37)\<close>

fun hex_pairs :: "string \<Rightarrow> byte list" where
  "hex_pairs (a # b # rest) = to_uint8 (parseInt [a, b] (Some 16)) # hex_pairs rest"
| "hex_pairs _ = []"

definition hexStringToUint8Array :: "string \<Rightarrow> byte list" where
  "hexStringToUint8Array hex =
     hex_pairs (if length hex mod 2 \<noteq> 0 then CHR ''0'' # hex else hex)"

definition padDataBytes :: "byte list \<Rightarrow> nat \<Rightarrow> byte list" where
  "padDataBytes data len =
     (if length data \<ge> len then data else replicate (len - length data) 0 @ data)"

subsection \<open>\<open>formatSharesFromJSON\<close> (lines 40-75)\<close>

text \<open>
  The parsed object is the list of its properties in the order \<open>for ... in\<close> visits
  them. A property holds either the \<open>{n, k}\<close> object or a \<open>{base, value}\<close> object; the
  base is given as the \<open>BigInt\<close> that line 7 makes of it.
\<close>

datatype jvalue = Keys int int | ShareEntry int string

type_synonym json = "(string \<times> jvalue) list"

text \<open>
  Lines 45-53. A property other than \<open>keys\<close> that has no \<open>base\<close> reaches
  \<open>BigInt(undefined)\<close> at line 7, which raises \<open>TypeError\<close>. The hexadecimal strings
  have even length, so \<open>hexVal.length / 2\<close> is a whole number.
\<close>

fun sharesData_loop :: "json \<Rightarrow> (int option \<times> string) list \<Rightarrow> nat \<Rightarrow> error + (int option \<times> string) list \<times> nat" where
  "sharesData_loop [] sharesData maxDataLen = Inr (sharesData, maxDataLen)"
| "sharesData_loop ((key, jv) # rest) sharesData maxDataLen =
     (if key \<noteq> ''keys'' then
        (case jv of
           Keys n k \<Rightarrow> Inl TypeError
         | ShareEntry base val \<Rightarrow>
             (case baseStringToHex val base of
                Inl e \<Rightarrow> Inl e
              | Inr hexVal \<Rightarrow>
                  sharesData_loop rest (sharesData @ [(parseInt key None, hexVal)])
                    (max maxDataLen (length hexVal div 2))))
      else sharesData_loop rest sharesData maxDataLen)"

text \<open>Lines 55-62: one share is the index byte followed by the padded payload.\<close>

definition make_share :: "nat \<Rightarrow> int option \<times> string \<Rightarrow> byte list" where
  "make_share maxDataLen e =
     to_uint8 (fst e) # padDataBytes (hexStringToUint8Array (snd e)) maxDataLen"

text \<open>
  Lines 65-72. \<open>Buffer.from(share).toString('hex')\<close> writes two digits for each byte; the
  set \<open>seen\<close> is the list of the strings added so far.
\<close>

definition byte_hex :: "byte \<Rightarrow> string" where
  "byte_hex b = [digits ! (unat b div 16), digits ! (unat b mod 16)]"

definition share_hex :: "byte list \<Rightarrow> string" where
  "share_hex share = concat (map byte_hex share)"

fun duplicates_loop :: "byte list list \<Rightarrow> string list \<Rightarrow> error + unit" where
  "duplicates_loop [] seen = Inr ()"
| "duplicates_loop (share # rest) seen =
     (let hex = share_hex share in
      if hex \<in> set seen then Inl (Error (''Duplicate share detected for hex: '' @ hex))
      else duplicates_loop rest (hex # seen))"

definition formatSharesFromJSON :: "json \<Rightarrow> error + byte list list" where
  "formatSharesFromJSON js =
     (case sharesData_loop js [] 0 of
        Inl e \<Rightarrow> Inl e
      | Inr (sharesData, maxDataLen) \<Rightarrow>
          (let shares = map (make_share maxDataLen) sharesData in
           case duplicates_loop shares [] of
             Inl e \<Rightarrow> Inl e
           | Inr _ \<Rightarrow> Inr shares))"

subsection \<open>Formatting followed by detection (lines 164 and 170)\<close>

text \<open>
  \<open>processFile\<close> formats the shares and hands them to \<open>detectWrongShares\<close> with the
  threshold \<open>jsonData.keys.k\<close>. The call of the external library between the two and
  the printing are left out.
\<close>

definition format_then_detect :: "json \<Rightarrow> int \<Rightarrow> int \<Rightarrow> error + detect_result" where
  "format_then_detect js threshold prime =
     (case formatSharesFromJSON js of
        Inl e \<Rightarrow> Inl e
      | Inr shares \<Rightarrow> detectWrongShares shares threshold prime)"

section \<open>Properties\<close>

subsection \<open>Truncating division on non-negative operands\<close>

lemma sdiv_nonneg: "0 \<le> a \<Longrightarrow> 0 < b \<Longrightarrow> (a::int) sdiv b = a div b"
  by (cases "a = 0") (simp_all add: signed_divide_int_def)

lemma smod_nonneg: "0 \<le> a \<Longrightarrow> 0 < b \<Longrightarrow> (a::int) smod b = a mod b"
  by (cases "a = 0") (simp_all add: signed_modulo_int_def)

lemma abs_alternating:
  fixes x0 x1 q :: int
  assumes "x0 * x1 \<le> 0" "0 \<le> q"
  shows "\<bar>x1 - q * x0\<bar> = \<bar>x1\<bar> + q * \<bar>x0\<bar>"
proof -
  consider "x0 = 0" | "x1 = 0" | "x0 < 0" "0 < x1" | "0 < x0" "x1 < 0"
    using assms(1) by (metis linorder_neqE_linordered_idom mult_neg_neg mult_pos_pos not_less)
  then show ?thesis
  proof cases
    case 3
    then have "q * x0 \<le> 0" using assms(2) by (simp add: mult_nonneg_nonpos)
    with 3 show ?thesis by (simp add: abs_if)
  next
    case 4
    then have "0 \<le> q * x0" using assms(2) by simp
    with 4 show ?thesis by (simp add: abs_if)
  qed (simp_all add: abs_mult assms(2))
qed

lemma modInverse_loop_coprime:
  fixes a m :: int
  assumes "2 \<le> m"
  shows "0 \<le> aa \<Longrightarrow> 0 \<le> p \<Longrightarrow> gcd aa p = 1 \<Longrightarrow> x0 * x1 \<le> 0 \<Longrightarrow>
         \<bar>x1\<bar> * p + \<bar>x0\<bar> * aa = m \<Longrightarrow> \<bar>x1\<bar> < m \<Longrightarrow>
         (a * x1) mod m = aa mod m \<Longrightarrow> (a * x0) mod m = p mod m \<Longrightarrow>
         \<exists>r. modInverse_loop aa p x0 x1 = Inr r \<and> \<bar>r\<bar> < m \<and> (a * r) mod m = 1"
proof (induction aa p x0 x1 rule: modInverse_loop.induct)
  case (1 aa p x0 x1)
  show ?case
  proof (cases "1 < aa")
    case False
    have "aa \<noteq> 0"
    proof
      assume "aa = 0"
      with "1.prems" have "p = 1" by simp
      with \<open>aa = 0\<close> "1.prems" show False by simp
    qed
    with False "1.prems" have aa: "aa = 1" by simp
    have "modInverse_loop aa p x0 x1 = Inr x1"
      using False by (simp add: modInverse_loop.simps)
    moreover have "(a * x1) mod m = 1"
      using "1.prems" aa assms by simp
    ultimately show ?thesis using "1.prems" by simp
  next
    case True
    have p0: "p \<noteq> 0"
    proof
      assume "p = 0"
      with "1.prems" True show False by simp
    qed
    with "1.prems" have ppos: "0 < p" by simp
    define q where "q = aa div p"
    have q0: "0 \<le> q" using True ppos by (simp add: q_def pos_imp_zdiv_nonneg_iff)
    have sd: "aa sdiv p = q" using True ppos by (simp add: sdiv_nonneg q_def)
    have sm: "aa smod p = aa mod p" using True ppos by (simp add: smod_nonneg)
    have r: "aa mod p = aa - q * p" by (simp add: q_def minus_div_mult_eq_mod)
    have step: "modInverse_loop aa p x0 x1 = modInverse_loop p (aa mod p) (x1 - q * x0) x0"
      using True p0 by (subst modInverse_loop.simps) (simp add: sd sm)
    have g: "gcd p (aa mod p) = 1"
      using "1.prems" by (metis gcd.commute gcd_red_int)
    have s: "(x1 - q * x0) * x0 \<le> 0"
    proof -
      have "(x1 - q * x0) * x0 = x0 * x1 - q * (x0 * x0)" by (simp add: algebra_simps)
      moreover have "0 \<le> q * (x0 * x0)" using q0 by simp
      ultimately show ?thesis using "1.prems" by linarith
    qed
    have ab: "\<bar>x1 - q * x0\<bar> = \<bar>x1\<bar> + q * \<bar>x0\<bar>"
      using "1.prems" q0 by (intro abs_alternating) simp_all
    have m: "\<bar>x0\<bar> * (aa mod p) + \<bar>x1 - q * x0\<bar> * p = m"
      unfolding ab r using "1.prems" by (simp add: algebra_simps)
    have b: "\<bar>x0\<bar> < m"
    proof -
      have "0 \<le> \<bar>x1\<bar> * p" using ppos by simp
      then have "\<bar>x0\<bar> * aa \<le> m" using "1.prems" by linarith
      moreover have "\<bar>x0\<bar> * 2 \<le> \<bar>x0\<bar> * aa" using True by (intro mult_left_mono) simp_all
      ultimately show ?thesis using assms by linarith
    qed
    have c1: "(a * x0) mod m = p mod m" using "1.prems" by simp
    have c2: "(a * (x1 - q * x0)) mod m = (aa mod p) mod m"
    proof -
      have "(a * (x1 - q * x0)) mod m = (a * x1 - q * (a * x0)) mod m"
        by (simp add: algebra_simps)
      also have "\<dots> = (aa - q * p) mod m"
      proof (rule mod_diff_cong)
        show "(a * x1) mod m = aa mod m" using "1.prems" by simp
        show "(q * (a * x0)) mod m = (q * p) mod m"
          using c1 by (metis mod_mult_right_eq)
      qed
      finally show ?thesis by (simp add: r)
    qed
    have "\<exists>r. modInverse_loop p (aa mod p) (x1 - q * x0) x0 = Inr r \<and> \<bar>r\<bar> < m \<and> (a * r) mod m = 1"
      using "1.IH" [OF True p0] "1.prems" ppos g s m b c1 c2
      by (simp add: sd sm)
    then show ?thesis by (simp add: step)
  qed
qed


text \<open>
  C5, as amended. For every non-negative \<open>a\<close> and every modulus \<open>m \<ge> 2\<close> coprime to
  \<open>a\<close>, \<open>modInverse(a, m)\<close> returns without error a value \<open>b\<close> in \<open>[0, m)\<close> with
  \<open>(a * b) % m = 1\<close>, where \<open>%\<close> is the \<open>BigInt\<close> remainder.
\<close>

theorem modInverse_inverse:
  assumes "0 \<le> a" "2 \<le> m" "gcd a m = 1"
  shows "\<exists>b. modInverse a m = Inr b \<and> 0 \<le> b \<and> b < m \<and> (a * b) smod m = 1"
proof -
  obtain r where r: "modInverse_loop a m 0 1 = Inr r" "\<bar>r\<bar> < m" "(a * r) mod m = 1"
    using modInverse_loop_coprime [of m a m 0 1 a] assms by auto
  define b where "b = (if r < 0 then r + m else r)"
  have mi: "modInverse a m = Inr b"
    using assms r by (simp add: modInverse_def b_def)
  have b: "0 \<le> b" "b < m" using r(2) by (auto simp: b_def)
  have "(a * b) mod m = 1" using r(3) by (simp add: b_def algebra_simps)
  moreover have "(a * b) smod m = (a * b) mod m"
    using assms b by (intro smod_nonneg) simp_all
  ultimately show ?thesis using mi b by simp
qed

theorem modInverse_inverse_witness:
  "(0::int) \<le> 3 \<and> (2::int) \<le> 7 \<and> gcd (3::int) 7 = 1 \<and>
   (\<exists>b. modInverse 3 7 = Inr b \<and> 0 \<le> b \<and> b < 7 \<and> (3 * b) smod 7 = 1)"
proof -
  have g: "gcd (3::int) 7 = 1" by code_simp
  show ?thesis using modInverse_inverse [of 3 7] g by simp
qed

text \<open>
  C5 as stated fails at the modulus 1: line 95 returns 0 there, and no remainder modulo 1
  equals 1.
\<close>

theorem modInverse_modulus_one_counterexample:
  "(0::int) \<le> 5 \<and> gcd (5::int) 1 = 1 \<and> modInverse 5 1 = Inr 0 \<and> (5 * 0) smod (1::int) \<noteq> 1"
  by (simp add: modInverse_def)

subsection \<open>False positives\<close>

text \<open>
  C1. For an untampered share set, of at least \<open>k\<close> shares with pairwise distinct \<open>x\<close> on
  one polynomial of degree at most \<open>k - 1\<close>, detection with threshold \<open>k\<close> should return
  an empty \<open>wrongShares\<close>. The script does not: the three shares below lie on the line
  \<open>y = 4x + 3\<close>, and with threshold 2 and the script's modulus it reports the shares 1
  and 3 and the secret \<open>2 ^ 521 - 26\<close> in place of 3.
\<close>

theorem detect_flags_untampered_shares:
  "sharesToPoints [[1, 7], [2, 11], [3, 15]] = Inr [(1, 7), (2, 11), (3, 15)] \<and>
   map (\<lambda>(x, y). 4 * x + 3) [(1, 7), (2, 11), (3, 15 :: int)] = map snd [(1 :: int, 7), (2, 11), (3, 15 :: int)] \<and>
   detectWrongShares [[1, 7], [2, 11], [3, 15]] 2 PRIME =
     Inr \<lparr>secret = Some (PRIME - 25), wrongShares = [(1, ''7''), (3, ''15'')]\<rparr>"
  by code_simp

subsection \<open>The scenario of the specification\<close>

text \<open>
  C2. With the modulus \<open>2 ^ 521 - 1\<close> and threshold 2, detection over the shares
  \<open>(1, 0x07)\<close>, \<open>(2, 0x0D)\<close>, \<open>(3, 0x13)\<close> should interpolate the first two points at
  zero and report no wrong share. The three points lie on the line \<open>y = 6x + 1\<close>, whose
  value at zero is 1. The script returns neither that value nor the 3 of the claim:
  \<open>modInverse\<close> answers 1 for the difference \<open>1 - 2\<close>, the secret comes out as
  \<open>2 ^ 521 - 28\<close>, and the shares 1 and 3 are reported.
\<close>

theorem scenario_result:
  "sharesToPoints [[1, 7], [2, 13], [3, 19]] = Inr [(1, 7), (2, 13), (3, 19)] \<and>
   map (\<lambda>(x, y). 6 * x + 1) [(1, 7), (2, 13), (3, 19 :: int)] = map snd [(1 :: int, 7), (2, 13), (3, 19 :: int)] \<and>
   modInverse (1 - 2) PRIME = Inr 1 \<and>
   lagrangeInterpolationAtZero [(1, 7), (2, 13)] PRIME = Inr (PRIME - 27) \<and>
   PRIME - 27 \<noteq> 3 \<and> PRIME - 27 \<noteq> 1 \<and>
   detectWrongShares [[1, 7], [2, 13], [3, 19]] 2 PRIME =
     Inr \<lparr>secret = Some (PRIME - 27), wrongShares = [(1, ''7''), (3, ''19'')]\<rparr>"
  by code_simp

subsection \<open>Negative differences\<close>

text \<open>
  C3. Every subtraction that can be negative should be brought back into \<open>[0, m)\<close> before
  it is used, so that intermediates and results are canonical. In the script the basis
  factor for the points \<open>(1, 7)\<close>, \<open>(2, 13)\<close> at 0 is \<open>-2\<close>, the estimate at \<open>x = 1\<close> is
  \<open>-7\<close>, and on two shares with payloads 0 and \<open>2 ^ 520\<close>, below the modulus,
  \<open>lagrangeInterpolationAtZero\<close> returns \<open>-1\<close>.
\<close>

theorem interpolation_not_normalized:
  "li_loop [(1, 7), (2, 13)] PRIME 0 0 1 [0..<2] 1 = Inr (- 2) \<and>
   yEstimate_at [(1, 7), (2, 13)] PRIME 1 = Inr (- 7) \<and>
   sharesToPoints [2 # replicate 66 0, 1 # 1 # replicate 65 0] = Inr [(2, 0), (1, 2 ^ 520)] \<and>
   (2 :: int) ^ 520 < PRIME \<and>
   lagrangeInterpolationAtZero [(2, 0), (1, 2 ^ 520)] PRIME = Inr (- 1)"
  by code_simp



subsection \<open>Two shares with one index\<close>

text \<open>
  C6. Two shares with the same index and different payloads should make formatting or
  detection fail. In the script they do not: the keys \<open>1\<close> and \<open>01\<close> both give the index
  1, the duplicate check compares whole shares, \<open>modInverse(0, m)\<close> returns 1, and
  detection returns a result.
\<close>

theorem duplicate_index_not_rejected:
  "formatSharesFromJSON [(''1'', ShareEntry 10 ''7''), (''keys'', Keys 2 2), (''01'', ShareEntry 10 ''13'')]
     = Inr [[1, 7], [1, 13]] \<and>
   modInverse 0 PRIME = Inr 1 \<and>
   format_then_detect [(''1'', ShareEntry 10 ''7''), (''keys'', Keys 2 2), (''01'', ShareEntry 10 ''13'')] 2 PRIME
     = Inr \<lparr>secret = Some (PRIME - 20), wrongShares = [(1, ''7''), (1, ''13'')]\<rparr>"
  by code_simp

subsection \<open>Two subsets\<close>

text \<open>
  C7. For points on one polynomial of degree at most \<open>k - 1\<close> with distinct \<open>x\<close>,
  interpolation at zero over two \<open>k\<close>-sized subsets should agree. In the script it does
  not: of the points \<open>(1, 7)\<close>, \<open>(2, 11)\<close>, \<open>(3, 15)\<close> on \<open>y = 4x + 3\<close>, the first two give
  \<open>2 ^ 521 - 26\<close> and the last two \<open>2 ^ 521 - 64\<close>.
\<close>

theorem subsets_disagree:
  "lagrangeInterpolationAtZero [(1, 7), (2, 11)] PRIME = Inr (PRIME - 25) \<and>
   lagrangeInterpolationAtZero [(2, 11), (3, 15)] PRIME = Inr (PRIME - 63) \<and>
   PRIME - 25 \<noteq> PRIME - 63"
  by code_simp

subsection \<open>What detection reports\<close>

text \<open>
  C8. Given at least \<open>threshold\<close> shares, \<open>detectWrongShares\<close> should take the first
  \<open>threshold\<close> shares as the subset, evaluate the polynomial through the subset at
  the \<open>x\<close> of every share, and return the index and \<open>y\<close> of exactly the shares that
  differ from it, in input order. With threshold 2 the subset of the shares below is
  \<open>(1, 7)\<close>, \<open>(2, 13)\<close>, on the line \<open>y = 6x + 1\<close>; share 3 has \<open>y = 20\<close>, off the line
  by one, so it alone differs. The script's estimate at \<open>x = 1\<close> is \<open>-7\<close> and at \<open>x = 3\<close>
  is 33, not 7 and 19, and it reports the subset member 1 beside share 3.
\<close>

theorem detect_reports_subset_member:
  "sharesToPoints [[1, 7], [2, 13], [3, 20]] = Inr [(1, 7), (2, 13), (3, 20)] \<and>
   slice0 [(1, 7), (2, 13), (3, 20 :: int)] 2 = [(1 :: int, 7), (2, 13)] \<and>
   map (\<lambda>(x, y). 6 * x + 1) [(1, 7), (2, 13 :: int)] = map snd [(1 :: int, 7), (2, 13 :: int)] \<and>
   (6 :: int) * 3 + 1 \<noteq> 20 \<and>
   yEstimate_at [(1, 7), (2, 13)] PRIME 1 = Inr (- 7) \<and>
   yEstimate_at [(1, 7), (2, 13)] PRIME 2 = Inr 13 \<and>
   yEstimate_at [(1, 7), (2, 13)] PRIME 3 = Inr 33 \<and>
   detectWrongShares [[1, 7], [2, 13], [3, 20]] 2 PRIME =
     Inr \<lparr>secret = Some (PRIME - 27), wrongShares = [(1, ''7''), (3, ''20'')]\<rparr>"
  by code_simp

text \<open>
  C9. With fewer shares than the threshold, \<open>detectWrongShares\<close> returns
  \<open>{ secret: null, wrongShares: [] }\<close> and raises nothing.
\<close>

theorem detectWrongShares_insufficient:
  "int (length shares) < threshold \<Longrightarrow>
   detectWrongShares shares threshold prime = Inr \<lparr>secret = None, wrongShares = []\<rparr>"
  by (simp add: detectWrongShares_def)

theorem detectWrongShares_insufficient_witness:
  "int (length [[1, 7 :: byte]]) < 2 \<and>
   detectWrongShares [[1, 7]] 2 PRIME = Inr \<lparr>secret = None, wrongShares = []\<rparr>"
  using detectWrongShares_insufficient [of "[[1, 7]]" 2 PRIME] by simp

subsection \<open>The index zero\<close>

text \<open>
  C10, as amended. \<open>sharesToPoints\<close> rejects no index: shares that each have at least
  one byte map, without error, to the points of their first byte and the big-endian
  value of the rest, so a share with index zero maps to a point with \<open>x = 0\<close>.
\<close>

theorem sharesToPoints_any_index:
  "[] \<notin> set shares \<Longrightarrow>
   sharesToPoints shares = Inr (map (\<lambda>s. (uint (hd s), payload_loop 0 (tl s))) shares)"
proof (induction shares)
  case Nil
  then show ?case by simp
next
  case (Cons s ss)
  then obtain b bs where s: "s = b # bs" by (cases s) auto
  from Cons show ?case by (simp add: s share_point_def)
qed

theorem sharesToPoints_any_index_witness:
  "[] \<notin> set [[0, 7], [1, 13 :: byte]] \<and>
   sharesToPoints [[0, 7], [1, 13]] = Inr [(0, 7), (1, 13)]"
  using sharesToPoints_any_index [of "[[0, 7], [1, 13]]"] by simp

text \<open>
  C10 as stated fails: the share with index 0 and payload 7 maps to \<open>(0, 7)\<close>, and
  \<open>formatSharesFromJSON\<close> builds that share from the key \<open>0\<close>.
\<close>

theorem index_zero_counterexample:
  "sharesToPoints [[0, 7]] = Inr [(0, 7)] \<and>
   formatSharesFromJSON [(''0'', ShareEntry 10 ''7'')] = Inr [[0, 7]]"
  by code_simp

end
